theory Spec2Isabelle
  imports Complex_Main
begin

section \<open>Python values used by the cost estimator\<close>

subsection \<open>Strings and \<open>str.lower\<close>\<close>

text \<open>
  The constructor normalises both string arguments with \<open>str.lower()\<close>. Strings are
  modelled as \<open>string\<close> (8-bit characters). \<open>lower_char\<close> maps each of the letters
  \<open>A\<close>..\<open>Z\<close> to its lower-case letter and leaves every other character alone, which
  is what Python does on ASCII text. Code points beyond ASCII are outside this model.
\<close>

definition lower_char :: "char \<Rightarrow> char" where
  "lower_char c =
     (case map_of (zip ''ABCDEFGHIJKLMNOPQRSTUVWXYZ'' ''abcdefghijklmnopqrstuvwxyz'') c of
        None \<Rightarrow> c
      | Some d \<Rightarrow> d)"

definition lower :: "string \<Rightarrow> string" where
  "lower s = map lower_char s"

subsection \<open>Floats\<close>

text \<open>
  Python's \<open>float\<close> is IEEE 754 binary64. A finite float is modelled by the real number
  it denotes; every literal and every arithmetic operation yields the exact result
  rounded to the nearest number with a 53-bit significand, ties going to the even
  significand. \<open>fl\<close> is that rounding. The exponent range is left unbounded: every
  number this program computes lies between \<open>0.015\<close> and \<open>3000\<close>, far inside the normal
  range of binary64, so neither overflow nor subnormal numbers occur.

  \<open>bit_length n\<close> is the number of binary digits of a positive integer (Python's
  \<open>int.bit_length\<close>); \<open>ilog2 x\<close> is \<open>\<lfloor>log\<^sub>2 x\<rfloor>\<close> for positive \<open>x\<close>.
\<close>

function bit_length :: "int \<Rightarrow> int" where
  "bit_length n = (if n \<le> 0 then 0 else 1 + bit_length (n div 2))"
  by pat_completeness auto
termination
  by (relation "measure nat") auto

declare bit_length.simps [simp del]

definition pow2 :: "int \<Rightarrow> real" where
  "pow2 e = (if 0 \<le> e then 2 ^ nat e else 1 / 2 ^ nat (- e))"

definition ilog2 :: "real \<Rightarrow> int" where
  "ilog2 x = (if 1 \<le> x then bit_length \<lfloor>x\<rfloor> - 1 else - bit_length (\<lceil>1 / x\<rceil> - 1))"

definition round_half_even :: "real \<Rightarrow> int" where
  "round_half_even y =
     (let f = \<lfloor>y\<rfloor>; d = y - of_int f
      in if d < 1 / 2 then f else if 1 / 2 < d then f + 1 else if even f then f else f + 1)"

definition fl :: "real \<Rightarrow> real" where
  "fl x =
     (if x = 0 then 0
      else let s = pow2 (ilog2 \<bar>x\<bar> - 52) in of_int (round_half_even (x / s)) * s)"

text \<open>Float multiplication and addition: the exact result, rounded once.\<close>

definition fmul :: "real \<Rightarrow> real \<Rightarrow> real" where
  "fmul a b = fl (a * b)"

definition fadd :: "real \<Rightarrow> real \<Rightarrow> real" where
  "fadd a b = fl (a + b)"

subsection \<open>Dictionaries\<close>

text \<open>\<open>d.get(k, default)\<close> on a dictionary modelled as a map.\<close>

definition dict_get :: "('k \<rightharpoonup> 'v) \<Rightarrow> 'k \<Rightarrow> 'v \<Rightarrow> 'v" where
  "dict_get d k dflt = (case d k of None \<Rightarrow> dflt | Some v \<Rightarrow> v)"

section \<open>The cost estimator (\<open>modules/cost_estimator.py\<close>)\<close>

subsection \<open>Fallback price tables\<close>

type_synonym price_table = "string \<rightharpoonup> (string \<rightharpoonup> real)"

definition AWS_PRICING_FALLBACK :: price_table where
  "AWS_PRICING_FALLBACK = map_of
     [(''t3.medium'', map_of [(''us-east-1'', fl 0.0416), (''us-west-2'', fl 0.0416)]),
      (''t3.large'', map_of [(''us-east-1'', fl 0.0832), (''us-west-2'', fl 0.0832)]),
      (''db.t3.micro'', map_of [(''us-east-1'', fl 0.017), (''us-west-2'', fl 0.017)]),
      (''db.t3.small'', map_of [(''us-east-1'', fl 0.034), (''us-west-2'', fl 0.034)])]"

definition GCP_PRICING_FALLBACK :: price_table where
  "GCP_PRICING_FALLBACK = map_of
     [(''n1-standard-1'', map_of [(''us-east1'', fl 0.0475), (''us-west1'', fl 0.0475)]),
      (''n1-standard-2'', map_of [(''us-east1'', fl 0.095), (''us-west1'', fl 0.095)]),
      (''db-f1-micro'', map_of [(''us-east1'', fl 0.015), (''us-west1'', fl 0.015)]),
      (''db-g1-small'', map_of [(''us-east1'', fl 0.025), (''us-west1'', fl 0.025)])]"

subsection \<open>The estimator object\<close>

text \<open>
  What a call of \<open>pricing_client.get_products(...)\<close> does: it raises, or it returns a
  response whose \<open>PriceList\<close> is a list of JSON texts. Each entry is kept only as the
  flag whether \<open>json.loads\<close> accepts it.
\<close>

datatype api_response = RequestFailed | PriceList "bool list"

text \<open>
  The attributes set by \<open>__init__\<close>. \<open>pricing_client\<close> is \<open>None\<close> or a client object;
  a client is represented by what its \<open>get_products\<close> call will answer. The attribute
  \<open>billing_client\<close> is never read by the estimation and is left out.
\<close>

record estimator =
  cloud :: string
  environment :: string
  enable_db :: bool
  region :: string
  pricing_client :: "api_response option"

definition get_region :: "estimator \<Rightarrow> string" where
  "get_region self =
     (let region_map = map_of
        [(''aws'', map_of [(''dev'', ''us-east-1''), (''staging'', ''us-west-2''),
                           (''prod'', ''us-west-2'')]),
         (''gcp'', map_of [(''dev'', ''us-east1''), (''staging'', ''us-west1''),
                           (''prod'', ''us-west1'')])]
      in dict_get (dict_get region_map (cloud self) Map.empty) (environment self) ''us-east-1'')"

definition get_instance_type :: "estimator \<Rightarrow> string" where
  "get_instance_type self =
     (let instance_map = map_of
        [(''aws'', map_of [(''dev'', ''t3.medium''), (''staging'', ''t3.large''),
                           (''prod'', ''t3.large'')]),
         (''gcp'', map_of [(''dev'', ''n1-standard-1''), (''staging'', ''n1-standard-2''),
                           (''prod'', ''n1-standard-2'')])]
      in dict_get (dict_get instance_map (cloud self) Map.empty) (environment self) ''t3.medium'')"

definition get_db_instance_type :: "estimator \<Rightarrow> string" where
  "get_db_instance_type self =
     (let db_map = map_of
        [(''aws'', map_of [(''dev'', ''db.t3.micro''), (''staging'', ''db.t3.small''),
                           (''prod'', ''db.t3.small'')]),
         (''gcp'', map_of [(''dev'', ''db-f1-micro''), (''staging'', ''db-g1-small''),
                           (''prod'', ''db-g1-small'')])]
      in dict_get (dict_get db_map (cloud self) Map.empty) (environment self) ''db.t3.micro'')"

text \<open>
  \<open>__init__(cloud, environment, enable_db)\<close>. The first argument \<open>boto\<close> stands for the
  run-time environment: \<open>None\<close> when \<open>boto3\<close> is not installed or \<open>boto3.client\<close> raises,
  \<open>Some r\<close> when a pricing client was created. The attributes are assigned in the
  order of the source, so \<open>_get_region\<close> reads the lower-cased strings.
\<close>

definition CostEstimator :: "api_response option \<Rightarrow> string \<Rightarrow> string \<Rightarrow> bool \<Rightarrow> estimator" where
  "CostEstimator boto cloud_arg environment_arg enable_db_arg =
     (let self = \<lparr>cloud = lower cloud_arg, environment = lower environment_arg,
                   enable_db = enable_db_arg, region = [], pricing_client = None\<rparr>;
          self = self\<lparr>region := get_region self\<rparr>
      in self\<lparr>pricing_client := (if cloud self = ''aws'' then boto else None)\<rparr>)"

subsection \<open>The cost breakdown\<close>

text \<open>
  The nested dictionary returned by \<open>estimate\<close>. Money amounts are floats (the integer
  constants \<open>10\<close> and \<open>0\<close> of the source are kept as the numbers they are); counts and
  gigabytes are integers.
\<close>

record compute_item =
  c_instances :: int
  c_type :: string
  c_hourly :: real
  c_monthly :: real

record storage_item =
  s_gb :: int
  s_monthly :: real

record data_transfer_item =
  dt_monthly :: real

record database_item =
  db_enabled :: bool
  db_type :: "string option"
  db_monthly :: real

record breakdown =
  compute :: compute_item
  storage :: storage_item
  data_transfer :: data_transfer_item
  database :: database_item
  total_monthly :: real
  total_yearly :: real

subsection \<open>Price resolution\<close>

text \<open>
  The live lookup of \<open>_estimate_aws_cost\<close> (the \<open>try\<close> block): with a client, a
  response with a non-empty \<open>PriceList\<close> whose first entry parses sets the price to the
  placeholder \<open>0.05\<close>; every other outcome leaves it \<open>None\<close>.
\<close>

fun aws_live_hourly :: "api_response option \<Rightarrow> real option" where
  "aws_live_hourly None = None"
| "aws_live_hourly (Some RequestFailed) = None"
| "aws_live_hourly (Some (PriceList [])) = None"
| "aws_live_hourly (Some (PriceList (parses # rest))) = (if parses then Some (fl 0.05) else None)"

text \<open>
  The four fallback lookups \<open>TABLE.get(type, {}).get(region, default)\<close>, one per
  provider and resource kind, each with the default written at that place of the source.
\<close>

definition aws_instance_fallback :: "string \<Rightarrow> string \<Rightarrow> real" where
  "aws_instance_fallback instance_type rgn =
     dict_get (dict_get AWS_PRICING_FALLBACK instance_type Map.empty) rgn (fl 0.05)"

definition aws_db_fallback :: "string \<Rightarrow> string \<Rightarrow> real" where
  "aws_db_fallback dbt rgn =
     dict_get (dict_get AWS_PRICING_FALLBACK dbt Map.empty) rgn (fl 0.017)"

definition gcp_instance_fallback :: "string \<Rightarrow> string \<Rightarrow> real" where
  "gcp_instance_fallback instance_type rgn =
     dict_get (dict_get GCP_PRICING_FALLBACK instance_type Map.empty) rgn (fl 0.0475)"

definition gcp_db_fallback :: "string \<Rightarrow> string \<Rightarrow> real" where
  "gcp_db_fallback dbt rgn =
     dict_get (dict_get GCP_PRICING_FALLBACK dbt Map.empty) rgn (fl 0.015)"

text \<open>
  The condition under which a lookup falls through to its default: the type identifier
  is not a key of the table, or the region is not a key of the identifier's entry.
\<close>

definition price_absent :: "price_table \<Rightarrow> string \<Rightarrow> string \<Rightarrow> bool" where
  "price_absent tab type_id rgn = (case tab type_id of None \<Rightarrow> True | Some m \<Rightarrow> m rgn = None)"

subsection \<open>Estimation\<close>

definition estimate_aws_cost :: "estimator \<Rightarrow> breakdown" where
  "estimate_aws_cost self =
     (let instance_type = get_instance_type self;
          num_instances = (if environment self = ''prod'' then 2 else 1);
          instance_hourly =
            (case aws_live_hourly (pricing_client self) of
               Some p \<Rightarrow> p
             | None \<Rightarrow> aws_instance_fallback instance_type (region self));
          compute_monthly = fmul (fmul instance_hourly (of_int num_instances)) 730;
          storage_gb = 30 * num_instances;
          storage_monthly = fmul (of_int storage_gb) (fl 0.10);
          data_transfer_monthly = 10;
          db_monthly =
            (if enable_db self
             then fmul (aws_db_fallback (get_db_instance_type self) (region self)) 730
             else 0);
          storage_gb' = (if enable_db self then storage_gb + 20 else storage_gb);
          storage_monthly' =
            (if enable_db self then fadd storage_monthly (fmul 20 (fl 0.115))
             else storage_monthly);
          total = fadd (fadd (fadd compute_monthly storage_monthly') data_transfer_monthly)
                    db_monthly
      in \<lparr>compute = \<lparr>c_instances = num_instances, c_type = instance_type,
                       c_hourly = instance_hourly, c_monthly = compute_monthly\<rparr>,
          storage = \<lparr>s_gb = storage_gb', s_monthly = storage_monthly'\<rparr>,
          data_transfer = \<lparr>dt_monthly = data_transfer_monthly\<rparr>,
          database = \<lparr>db_enabled = enable_db self,
                        db_type = (if enable_db self then Some (get_db_instance_type self)
                                   else None),
                        db_monthly = db_monthly\<rparr>,
          total_monthly = total,
          total_yearly = fmul total 12\<rparr>)"

definition estimate_gcp_cost :: "estimator \<Rightarrow> breakdown" where
  "estimate_gcp_cost self =
     (let instance_type = get_instance_type self;
          num_instances = (if environment self = ''prod'' then 2 else 1);
          instance_hourly = gcp_instance_fallback instance_type (region self);
          compute_monthly = fmul (fmul instance_hourly (of_int num_instances)) 730;
          storage_gb = 30 * num_instances;
          storage_monthly = fmul (of_int storage_gb) (fl 0.17);
          data_transfer_monthly = 10;
          db_monthly =
            (if enable_db self
             then fmul (gcp_db_fallback (get_db_instance_type self) (region self)) 730
             else 0);
          storage_gb' = (if enable_db self then storage_gb + 20 else storage_gb);
          storage_monthly' =
            (if enable_db self then fadd storage_monthly (fmul 20 (fl 0.17))
             else storage_monthly);
          total = fadd (fadd (fadd compute_monthly storage_monthly') data_transfer_monthly)
                    db_monthly
      in \<lparr>compute = \<lparr>c_instances = num_instances, c_type = instance_type,
                       c_hourly = instance_hourly, c_monthly = compute_monthly\<rparr>,
          storage = \<lparr>s_gb = storage_gb', s_monthly = storage_monthly'\<rparr>,
          data_transfer = \<lparr>dt_monthly = data_transfer_monthly\<rparr>,
          database = \<lparr>db_enabled = enable_db self,
                        db_type = (if enable_db self then Some (get_db_instance_type self)
                                   else None),
                        db_monthly = db_monthly\<rparr>,
          total_monthly = total,
          total_yearly = fmul total 12\<rparr>)"

datatype error = ValueError string

definition estimate :: "estimator \<Rightarrow> error + breakdown" where
  "estimate self =
     (if cloud self = ''aws'' then Inr (estimate_aws_cost self)
      else if cloud self = ''gcp'' then Inr (estimate_gcp_cost self)
      else Inl (ValueError (''Unsupported cloud provider: '' @ cloud self)))"

section \<open>Evaluating the model\<close>

subsection \<open>Rounding on numerals\<close>

text \<open>
  \<open>bit_length\<close> is unfolded on numerals only, so that the simplifier computes \<open>fl\<close> on
  closed terms and leaves it alone elsewhere. The next lemmas check \<open>fl\<close> against known
  binary64 facts: the double nearest to \<open>0.1\<close>, \<open>0.1 + 0.2\<close> being one unit in the last
  place above the double of \<open>0.3\<close>, and ties going to the even significand.
\<close>

lemma bit_length_0: "bit_length 0 = 0"
  by (subst bit_length.simps) simp

lemma bit_length_1: "bit_length 1 = 1"
  by (subst bit_length.simps) (simp add: bit_length_0)

lemma bit_length_numeral: "bit_length (numeral k) = 1 + bit_length (numeral k div 2)"
  by (subst bit_length.simps) simp

lemmas fl_eval = fl_def ilog2_def pow2_def round_half_even_def
  bit_length_0 bit_length_1 bit_length_numeral fmul_def fadd_def Let_def

lemma fl_tenth: "fl 0.1 = 3602879701896397 / 2 ^ 55"
  by (simp add: fl_eval)

lemma fl_small_ints: "fl 0 = 0" "fl 1 = 1" "fl 730 = 730" "fl (-3) = -3"
  by (simp_all add: fl_eval)

lemma fl_sum_tenths: "fadd (fl 0.1) (fl 0.2) = fl 0.3 + 1 / 2 ^ 54"
  by (simp add: fl_eval)

lemma fl_ties_to_even: "fl (2 ^ 53 + 1) = 2 ^ 53" "fl (2 ^ 53 + 3) = 2 ^ 53 + 4"
  by (simp_all add: fl_eval)

subsection \<open>Strings, sizing and price lookups\<close>

lemma lower_char_idem: "lower_char (lower_char c) = lower_char c"
  by (simp add: lower_char_def split: option.splits if_splits)

lemma lower_idem: "lower (lower s) = lower s"
  by (simp add: lower_def lower_char_idem)

lemma lower_names:
  "lower ''aws'' = ''aws''" "lower ''gcp'' = ''gcp''"
  "lower ''dev'' = ''dev''" "lower ''staging'' = ''staging''" "lower ''prod'' = ''prod''"
  by (simp_all add: lower_def lower_char_def)

lemma init_simps:
  "cloud (CostEstimator rt c e db) = lower c"
  "environment (CostEstimator rt c e db) = lower e"
  "enable_db (CostEstimator rt c e db) = db"
  "pricing_client (CostEstimator rt c e db) = (if lower c = ''aws'' then rt else None)"
  "region (CostEstimator rt c e db) = get_region (CostEstimator rt c e db)"
  by (simp_all add: CostEstimator_def Let_def get_region_def)

lemma aws_live_hourly_cases: "aws_live_hourly rt = None \<or> aws_live_hourly rt = Some (fl 0.05)"
  by (cases rt rule: aws_live_hourly.cases) simp_all

lemma get_region_aws:
  "cloud s = ''aws'' \<Longrightarrow> get_region s =
     (if environment s = ''dev'' then ''us-east-1''
      else if environment s = ''staging'' \<or> environment s = ''prod'' then ''us-west-2''
      else ''us-east-1'')"
  by (simp add: get_region_def dict_get_def)

lemma get_region_gcp:
  "cloud s = ''gcp'' \<Longrightarrow> get_region s =
     (if environment s = ''dev'' then ''us-east1''
      else if environment s = ''staging'' \<or> environment s = ''prod'' then ''us-west1''
      else ''us-east-1'')"
  by (simp add: get_region_def dict_get_def)

lemma get_instance_type_aws:
  "cloud s = ''aws'' \<Longrightarrow> get_instance_type s =
     (if environment s = ''dev'' then ''t3.medium''
      else if environment s = ''staging'' \<or> environment s = ''prod'' then ''t3.large''
      else ''t3.medium'')"
  by (simp add: get_instance_type_def dict_get_def)

lemma get_instance_type_gcp:
  "cloud s = ''gcp'' \<Longrightarrow> get_instance_type s =
     (if environment s = ''dev'' then ''n1-standard-1''
      else if environment s = ''staging'' \<or> environment s = ''prod'' then ''n1-standard-2''
      else ''t3.medium'')"
  by (simp add: get_instance_type_def dict_get_def)

lemma get_db_instance_type_aws:
  "cloud s = ''aws'' \<Longrightarrow> get_db_instance_type s =
     (if environment s = ''dev'' then ''db.t3.micro''
      else if environment s = ''staging'' \<or> environment s = ''prod'' then ''db.t3.small''
      else ''db.t3.micro'')"
  by (simp add: get_db_instance_type_def dict_get_def)

lemma get_db_instance_type_gcp:
  "cloud s = ''gcp'' \<Longrightarrow> get_db_instance_type s =
     (if environment s = ''dev'' then ''db-f1-micro''
      else if environment s = ''staging'' \<or> environment s = ''prod'' then ''db-g1-small''
      else ''db.t3.micro'')"
  by (simp add: get_db_instance_type_def dict_get_def)

lemma aws_db_hourly_cases:
  "cloud s = ''aws'' \<Longrightarrow>
   aws_db_fallback (get_db_instance_type s) (get_region s) \<in> {fl 0.017, fl 0.034}"
  by (simp add: get_db_instance_type_aws get_region_aws aws_db_fallback_def
      AWS_PRICING_FALLBACK_def dict_get_def)

lemma gcp_db_hourly_cases:
  "cloud s = ''gcp'' \<Longrightarrow>
   gcp_db_fallback (get_db_instance_type s) (get_region s) \<in> {fl 0.015, fl 0.025}"
  by (simp add: get_db_instance_type_gcp get_region_gcp gcp_db_fallback_def
      GCP_PRICING_FALLBACK_def dict_get_def)

lemma db_monthly_pos:
  "0 < fmul (fl 0.017) 730" "0 < fmul (fl 0.034) 730"
  "0 < fmul (fl 0.015) 730" "0 < fmul (fl 0.025) 730"
  by (simp_all add: fl_eval)

subsection \<open>Fields of the breakdown\<close>

lemma estimate_aws: "cloud s = ''aws'' \<Longrightarrow> estimate s = Inr (estimate_aws_cost s)"
  by (simp add: estimate_def)

lemma estimate_gcp: "cloud s = ''gcp'' \<Longrightarrow> estimate s = Inr (estimate_gcp_cost s)"
  by (simp add: estimate_def)

lemma aws_fields:
  "c_instances (compute (estimate_aws_cost s)) = (if environment s = ''prod'' then 2 else 1)"
  "c_type (compute (estimate_aws_cost s)) = get_instance_type s"
  "s_gb (storage (estimate_aws_cost s)) =
     (if enable_db s then 30 * c_instances (compute (estimate_aws_cost s)) + 20
      else 30 * c_instances (compute (estimate_aws_cost s)))"
  "s_monthly (storage (estimate_aws_cost s)) =
     (if enable_db s
      then fadd (fmul (of_int (30 * c_instances (compute (estimate_aws_cost s)))) (fl 0.10))
             (fmul 20 (fl 0.115))
      else fmul (of_int (30 * c_instances (compute (estimate_aws_cost s)))) (fl 0.10))"
  "db_enabled (database (estimate_aws_cost s)) = enable_db s"
  "db_type (database (estimate_aws_cost s)) =
     (if enable_db s then Some (get_db_instance_type s) else None)"
  "db_monthly (database (estimate_aws_cost s)) =
     (if enable_db s then fmul (aws_db_fallback (get_db_instance_type s) (region s)) 730 else 0)"
  "total_yearly (estimate_aws_cost s) = fmul (total_monthly (estimate_aws_cost s)) 12"
  by (simp_all add: estimate_aws_cost_def Let_def)

lemma gcp_fields:
  "c_instances (compute (estimate_gcp_cost s)) = (if environment s = ''prod'' then 2 else 1)"
  "c_type (compute (estimate_gcp_cost s)) = get_instance_type s"
  "s_gb (storage (estimate_gcp_cost s)) =
     (if enable_db s then 30 * c_instances (compute (estimate_gcp_cost s)) + 20
      else 30 * c_instances (compute (estimate_gcp_cost s)))"
  "s_monthly (storage (estimate_gcp_cost s)) =
     (if enable_db s
      then fadd (fmul (of_int (30 * c_instances (compute (estimate_gcp_cost s)))) (fl 0.17))
             (fmul 20 (fl 0.17))
      else fmul (of_int (30 * c_instances (compute (estimate_gcp_cost s)))) (fl 0.17))"
  "db_enabled (database (estimate_gcp_cost s)) = enable_db s"
  "db_type (database (estimate_gcp_cost s)) =
     (if enable_db s then Some (get_db_instance_type s) else None)"
  "db_monthly (database (estimate_gcp_cost s)) =
     (if enable_db s then fmul (gcp_db_fallback (get_db_instance_type s) (region s)) 730 else 0)"
  "total_yearly (estimate_gcp_cost s) = fmul (total_monthly (estimate_gcp_cost s)) 12"
  by (simp_all add: estimate_gcp_cost_def Let_def)

lemma aws_db_monthly_pos:
  assumes "cloud s = ''aws''" "region s = get_region s"
  shows "0 < fmul (aws_db_fallback (get_db_instance_type s) (region s)) 730"
  using aws_db_hourly_cases [OF assms(1)] assms(2) db_monthly_pos by auto

lemma gcp_db_monthly_pos:
  assumes "cloud s = ''gcp''" "region s = get_region s"
  shows "0 < fmul (gcp_db_fallback (get_db_instance_type s) (region s)) 730"
  using gcp_db_hourly_cases [OF assms(1)] assms(2) db_monthly_pos by auto

subsection \<open>Closed float facts\<close>

lemma default_prices_differ: "fl 0.0475 \<noteq> fl 0.05" "fl 0.015 \<noteq> fl 0.017"
  by (simp_all add: fl_eval)

lemma gcp_prod_sizing:
  "region (CostEstimator rt ''gcp'' ''prod'' db) = ''us-west1''"
  "get_instance_type (CostEstimator rt ''gcp'' ''prod'' db) = ''n1-standard-2''"
  "get_db_instance_type (CostEstimator rt ''gcp'' ''prod'' db) = ''db-g1-small''"
  "gcp_instance_fallback ''n1-standard-2'' ''us-west1'' = fl 0.095"
  "gcp_db_fallback ''db-g1-small'' ''us-west1'' = fl 0.025"
  by (simp_all add: init_simps lower_names get_region_gcp get_instance_type_gcp
      get_db_instance_type_gcp gcp_instance_fallback_def gcp_db_fallback_def
      GCP_PRICING_FALLBACK_def dict_get_def)

lemma gcp_prod_db_value:
  "estimate_gcp_cost (CostEstimator rt ''gcp'' ''prod'' True) =
     \<lparr>compute = \<lparr>c_instances = 2, c_type = ''n1-standard-2'',
                  c_hourly = 3422735716801577 / 2 ^ 55,
                  c_monthly = 2440036204360499 / 2 ^ 44\<rparr>,
      storage = \<lparr>s_gb = 80, s_monthly = 1914029841632461 / 2 ^ 47\<rparr>,
      data_transfer = \<lparr>dt_monthly = 10\<rparr>,
      database = \<lparr>db_enabled = True, db_type = Some ''db-g1-small'', db_monthly = 73 / 4\<rparr>,
      total_monthly = 6352538380638617 / 2 ^ 45,
      total_yearly = 4764403785478963 / 2 ^ 41\<rparr>"
  apply (simp add: estimate_gcp_cost_def Let_def gcp_prod_sizing init_simps(1-3) lower_names)
  apply (simp add: fl_eval)
  done

text \<open>
  The monthly total with and without the database, one lemma for each provider, tier and
  source of the AWS compute price (table or live placeholder). Each is settled by
  unfolding the estimate to a closed float expression and computing it.
\<close>

lemmas aws_unfold = estimate_aws_cost_def Let_def init_simps lower_names get_region_aws
  get_instance_type_aws get_db_instance_type_aws aws_instance_fallback_def aws_db_fallback_def
  AWS_PRICING_FALLBACK_def dict_get_def

lemmas gcp_unfold = estimate_gcp_cost_def Let_def init_simps lower_names get_region_gcp
  get_instance_type_gcp get_db_instance_type_gcp gcp_instance_fallback_def gcp_db_fallback_def
  GCP_PRICING_FALLBACK_def dict_get_def

lemma aws_dev_table_increase:
  assumes "aws_live_hourly rt = None"
  shows "total_monthly (estimate_aws_cost (CostEstimator rt ''aws'' ''dev'' False))
       < total_monthly (estimate_aws_cost (CostEstimator rt ''aws'' ''dev'' True))"
  using assms
  apply (simp add: aws_unfold)
  apply (simp add: fl_eval)
  done

lemma aws_dev_live_increase:
  assumes "aws_live_hourly rt = Some (fl 0.05)"
  shows "total_monthly (estimate_aws_cost (CostEstimator rt ''aws'' ''dev'' False))
       < total_monthly (estimate_aws_cost (CostEstimator rt ''aws'' ''dev'' True))"
  using assms
  apply (simp add: aws_unfold)
  apply (simp add: fl_eval)
  done

lemma gcp_dev_increase:
  "total_monthly (estimate_gcp_cost (CostEstimator rt ''gcp'' ''dev'' False))
 < total_monthly (estimate_gcp_cost (CostEstimator rt ''gcp'' ''dev'' True))"
  apply (simp add: gcp_unfold)
  apply (simp add: fl_eval)
  done

lemma aws_staging_table_increase:
  assumes "aws_live_hourly rt = None"
  shows "total_monthly (estimate_aws_cost (CostEstimator rt ''aws'' ''staging'' False))
       < total_monthly (estimate_aws_cost (CostEstimator rt ''aws'' ''staging'' True))"
  using assms
  apply (simp add: aws_unfold)
  apply (simp add: fl_eval)
  done

lemma aws_staging_live_increase:
  assumes "aws_live_hourly rt = Some (fl 0.05)"
  shows "total_monthly (estimate_aws_cost (CostEstimator rt ''aws'' ''staging'' False))
       < total_monthly (estimate_aws_cost (CostEstimator rt ''aws'' ''staging'' True))"
  using assms
  apply (simp add: aws_unfold)
  apply (simp add: fl_eval)
  done

lemma gcp_staging_increase:
  "total_monthly (estimate_gcp_cost (CostEstimator rt ''gcp'' ''staging'' False))
 < total_monthly (estimate_gcp_cost (CostEstimator rt ''gcp'' ''staging'' True))"
  apply (simp add: gcp_unfold)
  apply (simp add: fl_eval)
  done

lemma aws_prod_table_increase:
  assumes "aws_live_hourly rt = None"
  shows "total_monthly (estimate_aws_cost (CostEstimator rt ''aws'' ''prod'' False))
       < total_monthly (estimate_aws_cost (CostEstimator rt ''aws'' ''prod'' True))"
  using assms
  apply (simp add: aws_unfold)
  apply (simp add: fl_eval)
  done

lemma aws_prod_live_increase:
  assumes "aws_live_hourly rt = Some (fl 0.05)"
  shows "total_monthly (estimate_aws_cost (CostEstimator rt ''aws'' ''prod'' False))
       < total_monthly (estimate_aws_cost (CostEstimator rt ''aws'' ''prod'' True))"
  using assms
  apply (simp add: aws_unfold)
  apply (simp add: fl_eval)
  done

lemma gcp_prod_increase:
  "total_monthly (estimate_gcp_cost (CostEstimator rt ''gcp'' ''prod'' False))
 < total_monthly (estimate_gcp_cost (CostEstimator rt ''gcp'' ''prod'' True))"
  apply (simp add: gcp_unfold)
  apply (simp add: fl_eval)
  done

section \<open>The claims\<close>

text \<open>
  In every statement below \<open>rt\<close> is the run-time environment of the constructor (whether
  a live AWS pricing client exists and what it answers); the statements hold for each.
\<close>

text \<open>
  Claim C1. For provider \<open>aws\<close> or \<open>gcp\<close>, every tier and every value of the database
  flag, \<open>estimate\<close> returns a breakdown whose \<open>total_yearly\<close> equals
  \<open>total_monthly * 12\<close>, the product being the float product of the source.
\<close>

theorem yearly_is_twelve_months:
  assumes "c \<in> {''aws'', ''gcp''}"
  shows "\<exists>b. estimate (CostEstimator rt c e db) = Inr b \<and>
             total_yearly b = fmul (total_monthly b) 12"
proof -
  let ?s = "CostEstimator rt c e db"
  from assms consider "cloud ?s = ''aws''" | "cloud ?s = ''gcp''"
    by (auto simp: init_simps lower_names)
  then show ?thesis
  proof cases
    case 1
    then show ?thesis by (simp add: estimate_aws aws_fields)
  next
    case 2
    then show ?thesis by (simp add: estimate_gcp gcp_fields)
  qed
qed

theorem yearly_is_twelve_months_witness:
  "''aws'' \<in> {''aws'', ''gcp''} \<and>
   (\<exists>b. estimate (CostEstimator None ''aws'' ''dev'' False) = Inr b \<and>
        total_yearly b = fmul (total_monthly b) 12)"
  using yearly_is_twelve_months [of "''aws''" None "''dev''" False] by simp

text \<open>
  Claim C2. For provider \<open>aws\<close> or \<open>gcp\<close> and tier \<open>dev\<close>, \<open>staging\<close> or \<open>prod\<close>, the
  compute item of the returned breakdown has 2 instances exactly when the tier is
  \<open>prod\<close> and 1 instance otherwise; no other count occurs.
\<close>

theorem instances_two_iff_prod:
  assumes "c \<in> {''aws'', ''gcp''}" and "e \<in> {''dev'', ''staging'', ''prod''}"
  shows "\<exists>b. estimate (CostEstimator rt c e db) = Inr b \<and>
             (c_instances (compute b) = 2 \<longleftrightarrow> e = ''prod'') \<and>
             (e \<noteq> ''prod'' \<longrightarrow> c_instances (compute b) = 1) \<and>
             c_instances (compute b) \<in> {1, 2}"
proof -
  let ?s = "CostEstimator rt c e db"
  from assms(2) have env: "environment ?s = e"
    by (auto simp: init_simps lower_names)
  from assms(1) consider (aws) "cloud ?s = ''aws''" | (gcp) "cloud ?s = ''gcp''"
    by (auto simp: init_simps lower_names)
  then show ?thesis
  proof cases
    case aws
    then show ?thesis by (simp add: estimate_aws aws_fields env)
  next
    case gcp
    then show ?thesis by (simp add: estimate_gcp gcp_fields env)
  qed
qed

theorem instances_two_iff_prod_witness:
  "''gcp'' \<in> {''aws'', ''gcp''} \<and> ''prod'' \<in> {''dev'', ''staging'', ''prod''} \<and>
   (\<exists>b. estimate (CostEstimator None ''gcp'' ''prod'' True) = Inr b \<and>
        c_instances (compute b) = 2)"
  using instances_two_iff_prod [of "''gcp''" "''prod''" None True] by auto

text \<open>
  Claim C3. For provider \<open>aws\<close> or \<open>gcp\<close> and every tier: with the database flag off,
  \<open>database.monthly\<close> is 0 and \<open>database.type\<close> is \<open>None\<close>; with the flag on,
  \<open>database.monthly\<close> is strictly positive.
\<close>

theorem database_charge_follows_flag:
  assumes "c \<in> {''aws'', ''gcp''}"
  shows "\<exists>b. estimate (CostEstimator rt c e db) = Inr b \<and>
             (\<not> db \<longrightarrow> db_monthly (database b) = 0 \<and> db_type (database b) = None) \<and>
             (db \<longrightarrow> 0 < db_monthly (database b))"
proof -
  let ?s = "CostEstimator rt c e db"
  have reg: "region ?s = get_region ?s"
    by (simp add: init_simps)
  from assms consider (aws) "cloud ?s = ''aws''" | (gcp) "cloud ?s = ''gcp''"
    by (auto simp: init_simps lower_names)
  then show ?thesis
  proof cases
    case aws
    from aws_db_monthly_pos [OF aws reg] aws show ?thesis
      by (cases db) (simp_all add: estimate_aws aws_fields init_simps(3))
  next
    case gcp
    from gcp_db_monthly_pos [OF gcp reg] gcp show ?thesis
      by (cases db) (simp_all add: estimate_gcp gcp_fields init_simps(3))
  qed
qed

theorem database_charge_follows_flag_witness:
  "''aws'' \<in> {''aws'', ''gcp''} \<and>
   (\<exists>b. estimate (CostEstimator None ''aws'' ''staging'' False) = Inr b \<and>
        db_monthly (database b) = 0 \<and> db_type (database b) = None) \<and>
   (\<exists>b. estimate (CostEstimator None ''aws'' ''staging'' True) = Inr b \<and>
        0 < db_monthly (database b))"
  using database_charge_follows_flag [of "''aws''" None "''staging''" False]
    database_charge_follows_flag [of "''aws''" None "''staging''" True]
  by simp

text \<open>
  Claim C4 gives one pair of defaults, \<open>0.05\<close> for compute and \<open>0.017\<close> for database, to
  both providers. The GCP lookups carry their own defaults: \<open>t3.medium\<close> in \<open>us-east-1\<close>
  (what a GCP estimator with an unknown tier looks up) is absent from the GCP table and
  resolves to \<open>0.0475\<close>, and \<open>db.t3.micro\<close> resolves to \<open>0.015\<close>.
\<close>

theorem gcp_default_price_counterexample:
  "price_absent GCP_PRICING_FALLBACK ''t3.medium'' ''us-east-1'' \<and>
   gcp_instance_fallback ''t3.medium'' ''us-east-1'' = fl 0.0475 \<and>
   gcp_instance_fallback ''t3.medium'' ''us-east-1'' \<noteq> fl 0.05 \<and>
   price_absent GCP_PRICING_FALLBACK ''db.t3.micro'' ''us-east-1'' \<and>
   gcp_db_fallback ''db.t3.micro'' ''us-east-1'' = fl 0.015 \<and>
   gcp_db_fallback ''db.t3.micro'' ''us-east-1'' \<noteq> fl 0.017 \<and>
   c_hourly (compute (estimate_gcp_cost (CostEstimator None ''gcp'' ''test'' True))) = fl 0.0475"
proof -
  have low: "lower ''test'' = ''test''"
    by (simp add: lower_def lower_char_def)
  have a: "price_absent GCP_PRICING_FALLBACK ''t3.medium'' ''us-east-1''"
    "price_absent GCP_PRICING_FALLBACK ''db.t3.micro'' ''us-east-1''"
    by (simp_all add: price_absent_def GCP_PRICING_FALLBACK_def)
  have b: "gcp_instance_fallback ''t3.medium'' ''us-east-1'' = fl 0.0475"
    "gcp_db_fallback ''db.t3.micro'' ''us-east-1'' = fl 0.015"
    by (simp_all add: gcp_instance_fallback_def gcp_db_fallback_def GCP_PRICING_FALLBACK_def
        dict_get_def)
  have c: "c_hourly (compute (estimate_gcp_cost (CostEstimator None ''gcp'' ''test'' True))) =
      gcp_instance_fallback ''t3.medium'' ''us-east-1''"
    by (simp add: estimate_gcp_cost_def Let_def init_simps lower_names low get_region_gcp
        get_instance_type_gcp)
  from a b c default_prices_differ show ?thesis
    by simp
qed

text \<open>
  Claim C4, amended. When the type identifier is absent from the provider's table, or the
  region is absent from the identifier's entry, the fallback price is the default of that
  provider and resource kind: for AWS \<open>0.05\<close> (compute) and \<open>0.017\<close> (database), for GCP
  \<open>0.0475\<close> (compute) and \<open>0.015\<close> (database).
\<close>

theorem fallback_defaults_per_provider:
  "(price_absent AWS_PRICING_FALLBACK t r \<longrightarrow>
      aws_instance_fallback t r = fl 0.05 \<and> aws_db_fallback t r = fl 0.017) \<and>
   (price_absent GCP_PRICING_FALLBACK t r \<longrightarrow>
      gcp_instance_fallback t r = fl 0.0475 \<and> gcp_db_fallback t r = fl 0.015)"
  by (auto simp: price_absent_def aws_instance_fallback_def aws_db_fallback_def
      gcp_instance_fallback_def gcp_db_fallback_def dict_get_def split: option.splits)

theorem fallback_defaults_per_provider_witness:
  "price_absent AWS_PRICING_FALLBACK ''t3.medium'' ''eu-west-1'' \<and>
   aws_instance_fallback ''t3.medium'' ''eu-west-1'' = fl 0.05 \<and>
   aws_db_fallback ''t3.medium'' ''eu-west-1'' = fl 0.017 \<and>
   price_absent GCP_PRICING_FALLBACK ''t3.medium'' ''eu-west-1'' \<and>
   gcp_instance_fallback ''t3.medium'' ''eu-west-1'' = fl 0.0475 \<and>
   gcp_db_fallback ''t3.medium'' ''eu-west-1'' = fl 0.015"
proof -
  have "price_absent AWS_PRICING_FALLBACK ''t3.medium'' ''eu-west-1''"
    "price_absent GCP_PRICING_FALLBACK ''t3.medium'' ''eu-west-1''"
    by (simp_all add: price_absent_def AWS_PRICING_FALLBACK_def GCP_PRICING_FALLBACK_def)
  with fallback_defaults_per_provider [of "''t3.medium''" "''eu-west-1''"]
  show ?thesis by simp
qed

text \<open>
  Claim C5 gives the storage charge of the GCP production estimate with database as
  exactly \<open>13.60\<close> and the monthly total as exactly \<open>180.55\<close>. In binary64 the sum
  \<open>60 * 0.17 + 20 * 0.17\<close> is one unit in the last place above the float \<open>13.60\<close>
  (Python prints \<open>13.600000000000001\<close>), and the total is one unit in the last place
  below the float \<open>180.55\<close> (Python prints \<open>180.54999999999998\<close>).
\<close>

theorem gcp_prod_db_exact_counterexample:
  "estimate (CostEstimator None ''gcp'' ''prod'' True) =
     Inr (estimate_gcp_cost (CostEstimator None ''gcp'' ''prod'' True)) \<and>
   s_monthly (storage (estimate_gcp_cost (CostEstimator None ''gcp'' ''prod'' True))) =
     fl 13.60 + 1 / 2 ^ 49 \<and>
   s_monthly (storage (estimate_gcp_cost (CostEstimator None ''gcp'' ''prod'' True))) \<noteq> fl 13.60 \<and>
   s_monthly (storage (estimate_gcp_cost (CostEstimator None ''gcp'' ''prod'' True))) \<noteq> 13.60 \<and>
   total_monthly (estimate_gcp_cost (CostEstimator None ''gcp'' ''prod'' True)) =
     fl 180.55 - 1 / 2 ^ 45 \<and>
   total_monthly (estimate_gcp_cost (CostEstimator None ''gcp'' ''prod'' True)) \<noteq> fl 180.55 \<and>
   total_monthly (estimate_gcp_cost (CostEstimator None ''gcp'' ''prod'' True)) \<noteq> 180.55"
  by (simp add: estimate_gcp init_simps lower_names gcp_prod_db_value fl_eval)

text \<open>
  Claim C5, amended. The GCP production estimate with database has region \<open>us-west1\<close>,
  compute type \<open>n1-standard-2\<close>, 2 instances, compute hourly \<open>0.095\<close>, compute monthly
  \<open>138.70\<close>, 80 GB of storage, data transfer \<open>10\<close>, database type \<open>db-g1-small\<close> priced at
  \<open>0.025\<close> per hour and \<open>18.25\<close> per month, each of these numbers being the float of the
  decimal; the storage charge and the monthly total are the floats next to \<open>13.60\<close> and
  \<open>180.55\<close> described above, less than \<open>1e-13\<close> away from the decimals.
\<close>

theorem gcp_prod_db_scenario:
  "region (CostEstimator rt ''gcp'' ''prod'' True) = ''us-west1'' \<and>
   gcp_db_fallback ''db-g1-small'' ''us-west1'' = fl 0.025 \<and>
   estimate (CostEstimator rt ''gcp'' ''prod'' True) =
     Inr \<lparr>compute = \<lparr>c_instances = 2, c_type = ''n1-standard-2'',
                      c_hourly = fl 0.095, c_monthly = fl 138.70\<rparr>,
          storage = \<lparr>s_gb = 80, s_monthly = fl 13.60 + 1 / 2 ^ 49\<rparr>,
          data_transfer = \<lparr>dt_monthly = 10\<rparr>,
          database = \<lparr>db_enabled = True, db_type = Some ''db-g1-small'',
                        db_monthly = fl 18.25\<rparr>,
          total_monthly = fl 180.55 - 1 / 2 ^ 45,
          total_yearly = fl 2166.6\<rparr> \<and>
   \<bar>fl 13.60 + 1 / 2 ^ 49 - 13.60\<bar> < 1 / 10 ^ 14 \<and>
   \<bar>fl 180.55 - 1 / 2 ^ 45 - 180.55\<bar> < 1 / 10 ^ 13"
  by (simp add: estimate_gcp init_simps(1) lower_names gcp_prod_sizing gcp_prod_db_value
      fl_eval)

text \<open>
  Claim C6. For provider \<open>aws\<close> or \<open>gcp\<close> and tier \<open>dev\<close>, \<open>staging\<close> or \<open>prod\<close>, the
  monthly total of the estimate with the database is strictly greater than the monthly
  total of the estimate without it, all else equal.
\<close>

theorem database_raises_total:
  assumes "c \<in> {''aws'', ''gcp''}" and "e \<in> {''dev'', ''staging'', ''prod''}"
  shows "\<exists>b0 b1. estimate (CostEstimator rt c e False) = Inr b0 \<and>
                 estimate (CostEstimator rt c e True) = Inr b1 \<and>
                 total_monthly b0 < total_monthly b1"
proof -
  have aws: "total_monthly (estimate_aws_cost (CostEstimator rt ''aws'' e False))
      < total_monthly (estimate_aws_cost (CostEstimator rt ''aws'' e True))"
    using assms(2) aws_live_hourly_cases [of rt]
      aws_dev_table_increase [of rt] aws_dev_live_increase [of rt]
      aws_staging_table_increase [of rt] aws_staging_live_increase [of rt]
      aws_prod_table_increase [of rt] aws_prod_live_increase [of rt]
    by blast
  have gcp: "total_monthly (estimate_gcp_cost (CostEstimator rt ''gcp'' e False))
      < total_monthly (estimate_gcp_cost (CostEstimator rt ''gcp'' e True))"
    using assms(2) gcp_dev_increase [of rt] gcp_staging_increase [of rt]
      gcp_prod_increase [of rt]
    by blast
  from assms(1) consider "c = ''aws''" | "c = ''gcp''"
    by blast
  then show ?thesis
  proof cases
    case 1
    with aws show ?thesis
      by (simp add: estimate_aws init_simps(1) lower_names)
  next
    case 2
    with gcp show ?thesis
      by (simp add: estimate_gcp init_simps(1) lower_names)
  qed
qed

theorem database_raises_total_witness:
  "''aws'' \<in> {''aws'', ''gcp''} \<and> ''dev'' \<in> {''dev'', ''staging'', ''prod''} \<and>
   (\<exists>b0 b1. estimate (CostEstimator None ''aws'' ''dev'' False) = Inr b0 \<and>
            estimate (CostEstimator None ''aws'' ''dev'' True) = Inr b1 \<and>
            total_monthly b0 < total_monthly b1)"
  using database_raises_total [of "''aws''" "''dev''" None] by simp

text \<open>
  Claim C7. When the lower-cased provider string is neither \<open>aws\<close> nor \<open>gcp\<close>,
  \<open>estimate\<close> raises \<open>ValueError\<close> with a message that ends in that lower-cased string,
  and returns no breakdown.
\<close>

theorem unsupported_provider_raises:
  assumes "lower c \<notin> {''aws'', ''gcp''}"
  shows "estimate (CostEstimator rt c e db) =
           Inl (ValueError (''Unsupported cloud provider: '' @ lower c)) \<and>
         (\<forall>b. estimate (CostEstimator rt c e db) \<noteq> Inr b)"
  using assms by (simp add: estimate_def init_simps)

theorem unsupported_provider_raises_witness:
  "lower ''Azure'' \<notin> {''aws'', ''gcp''} \<and>
   estimate (CostEstimator None ''Azure'' ''dev'' False) =
     Inl (ValueError ''Unsupported cloud provider: azure'')"
proof -
  have low: "lower ''Azure'' = ''azure''"
    by (simp add: lower_def lower_char_def)
  then have "lower ''Azure'' \<notin> {''aws'', ''gcp''}"
    by simp
  from unsupported_provider_raises [OF this, of None "''dev''" False] low
  show ?thesis by simp
qed

text \<open>
  Claim C8. For provider \<open>aws\<close> or \<open>gcp\<close> and every tier, with \<open>n\<close> the instance count
  of the breakdown: without the database the storage item has \<open>30 * n\<close> GB, the storage
  charge is the base charge alone and the database charge is 0; with the database the
  storage item has \<open>30 * n + 20\<close> GB, the storage charge is the base charge plus the
  charge for 20 GB at the database storage rate, and the database charge is positive.
  The three additions happen together, under the one flag.
\<close>

theorem storage_follows_database_flag:
  assumes "c \<in> {''aws'', ''gcp''}"
  shows "\<exists>b. estimate (CostEstimator rt c e db) = Inr b \<and>
     (let n = c_instances (compute b);
          rate = (if c = ''aws'' then fl 0.10 else fl 0.17);
          db_rate = (if c = ''aws'' then fl 0.115 else fl 0.17);
          base = fmul (of_int (30 * n)) rate
      in (\<not> db \<longrightarrow> s_gb (storage b) = 30 * n \<and> s_monthly (storage b) = base \<and>
                  db_monthly (database b) = 0) \<and>
         (db \<longrightarrow> s_gb (storage b) = 30 * n + 20 \<and>
                s_monthly (storage b) = fadd base (fmul 20 db_rate) \<and>
                0 < db_monthly (database b)))"
proof -
  let ?s = "CostEstimator rt c e db"
  have reg: "region ?s = get_region ?s"
    by (simp add: init_simps)
  from assms consider (aws) "c = ''aws''" "cloud ?s = ''aws''" | (gcp) "c = ''gcp''" "cloud ?s = ''gcp''"
    by (auto simp: init_simps lower_names)
  then show ?thesis
  proof cases
    case aws
    from aws_db_monthly_pos [OF aws(2) reg] aws show ?thesis
      by (cases db) (simp_all add: estimate_aws aws_fields init_simps(3) Let_def)
  next
    case gcp
    from gcp_db_monthly_pos [OF gcp(2) reg] gcp show ?thesis
      by (cases db) (simp_all add: estimate_gcp gcp_fields init_simps(3) Let_def)
  qed
qed

theorem storage_follows_database_flag_witness:
  "''gcp'' \<in> {''aws'', ''gcp''} \<and>
   (\<exists>b. estimate (CostEstimator None ''gcp'' ''prod'' False) = Inr b \<and>
        s_gb (storage b) = 30 * c_instances (compute b) \<and> db_monthly (database b) = 0) \<and>
   (\<exists>b. estimate (CostEstimator None ''gcp'' ''prod'' True) = Inr b \<and>
        s_gb (storage b) = 30 * c_instances (compute b) + 20 \<and> 0 < db_monthly (database b))"
  using storage_follows_database_flag [of "''gcp''" None "''prod''" False]
    storage_follows_database_flag [of "''gcp''" None "''prod''" True]
  by (auto simp: Let_def)

text \<open>
  Claim C9 speaks of every tier string outside \<open>dev\<close>, \<open>staging\<close>, \<open>prod\<close>. The string
  \<open>PROD\<close> is such a string, and the constructor lower-cases it: the estimator is sized as
  \<open>prod\<close>, not by the defaults.
\<close>

theorem unknown_tier_uppercase_counterexample:
  "''PROD'' \<notin> {''dev'', ''staging'', ''prod''} \<and>
   region (CostEstimator None ''aws'' ''PROD'' True) = ''us-west-2'' \<and>
   get_instance_type (CostEstimator None ''aws'' ''PROD'' True) = ''t3.large'' \<and>
   get_db_instance_type (CostEstimator None ''aws'' ''PROD'' True) = ''db.t3.small'' \<and>
   estimate (CostEstimator None ''aws'' ''PROD'' True) =
     Inr (estimate_aws_cost (CostEstimator None ''aws'' ''PROD'' True)) \<and>
   c_type (compute (estimate_aws_cost (CostEstimator None ''aws'' ''PROD'' True))) = ''t3.large'' \<and>
   ''us-west-2'' \<noteq> ''us-east-1'' \<and> ''t3.large'' \<noteq> ''t3.medium'' \<and>
   ''db.t3.small'' \<noteq> ''db.t3.micro''"
proof -
  have low: "lower ''PROD'' = ''prod''"
    by (simp add: lower_def lower_char_def)
  show ?thesis
    by (simp add: init_simps lower_names low get_region_aws get_instance_type_aws
        get_db_instance_type_aws estimate_aws aws_fields)
qed

text \<open>
  Claim C9, amended. For provider \<open>aws\<close> or \<open>gcp\<close> and every tier string whose lower-case
  form is none of \<open>dev\<close>, \<open>staging\<close>, \<open>prod\<close>, the sizing lookups fall back to region
  \<open>us-east-1\<close>, compute type \<open>t3.medium\<close> and database type \<open>db.t3.micro\<close>, and
  \<open>estimate\<close> returns a breakdown built from them.
\<close>

theorem unknown_tier_falls_back:
  assumes "c \<in> {''aws'', ''gcp''}" and "lower e \<notin> {''dev'', ''staging'', ''prod''}"
  shows "region (CostEstimator rt c e db) = ''us-east-1'' \<and>
         get_instance_type (CostEstimator rt c e db) = ''t3.medium'' \<and>
         get_db_instance_type (CostEstimator rt c e db) = ''db.t3.micro'' \<and>
         (\<exists>b. estimate (CostEstimator rt c e db) = Inr b \<and>
              c_instances (compute b) = 1 \<and>
              c_type (compute b) = ''t3.medium'' \<and>
              db_type (database b) = (if db then Some ''db.t3.micro'' else None))"
proof -
  let ?s = "CostEstimator rt c e db"
  from assms(2) have env: "environment ?s \<noteq> ''dev''" "environment ?s \<noteq> ''staging''"
    "environment ?s \<noteq> ''prod''"
    by (simp_all add: init_simps)
  from assms(1) consider (aws) "cloud ?s = ''aws''" | (gcp) "cloud ?s = ''gcp''"
    by (auto simp: init_simps lower_names)
  then show ?thesis
  proof cases
    case aws
    have "region ?s = get_region ?s"
      by (simp add: init_simps)
    with aws env show ?thesis
      by (cases db) (simp_all add: get_region_aws get_instance_type_aws
          get_db_instance_type_aws estimate_aws aws_fields init_simps(3))
  next
    case gcp
    have "region ?s = get_region ?s"
      by (simp add: init_simps)
    with gcp env show ?thesis
      by (cases db) (simp_all add: get_region_gcp get_instance_type_gcp
          get_db_instance_type_gcp estimate_gcp gcp_fields init_simps(3))
  qed
qed

theorem unknown_tier_falls_back_witness:
  "''gcp'' \<in> {''aws'', ''gcp''} \<and> lower ''QA'' \<notin> {''dev'', ''staging'', ''prod''} \<and>
   region (CostEstimator None ''gcp'' ''QA'' True) = ''us-east-1'' \<and>
   (\<exists>b. estimate (CostEstimator None ''gcp'' ''QA'' True) = Inr b \<and>
        c_type (compute b) = ''t3.medium'' \<and> db_type (database b) = Some ''db.t3.micro'')"
proof -
  have low: "lower ''QA'' \<notin> {''dev'', ''staging'', ''prod''}"
    by (simp add: lower_def lower_char_def)
  from unknown_tier_falls_back [OF _ low, of "''gcp''" None True] low
  show ?thesis by auto
qed

text \<open>
  Claim C10. \<open>estimate\<close> gives the same result (breakdown or error) for the provider and
  tier strings as for their lower-case forms; \<open>AWS\<close> with \<open>Prod\<close> behaves as \<open>aws\<close> with
  \<open>prod\<close> and returns a breakdown.
\<close>

theorem estimate_case_insensitive:
  "estimate (CostEstimator rt p e db) = estimate (CostEstimator rt (lower p) (lower e) db) \<and>
   estimate (CostEstimator rt ''AWS'' ''Prod'' db) = estimate (CostEstimator rt ''aws'' ''prod'' db) \<and>
   (\<exists>b. estimate (CostEstimator rt ''AWS'' ''Prod'' db) = Inr b)"
proof -
  have norm: "CostEstimator rt q t db = CostEstimator rt (lower q) (lower t) db" for q t
    by (simp add: CostEstimator_def lower_idem)
  have low: "lower ''AWS'' = ''aws''" "lower ''Prod'' = ''prod''"
    by (simp_all add: lower_def lower_char_def)
  have "estimate (CostEstimator rt p e db) = estimate (CostEstimator rt (lower p) (lower e) db)"
    using norm [of p e] by simp
  moreover have same: "estimate (CostEstimator rt ''AWS'' ''Prod'' db) =
      estimate (CostEstimator rt ''aws'' ''prod'' db)"
    using norm [of "''AWS''" "''Prod''"] by (simp add: low)
  moreover have "\<exists>b. estimate (CostEstimator rt ''AWS'' ''Prod'' db) = Inr b"
    by (simp add: estimate_def init_simps low)
  ultimately show ?thesis by blast
qed

end
